theory Spec2Isabelle
  imports Complex_Main
begin

section \<open>The data model of \<open>xtgeo.grid3d.grid.Grid\<close>\<close>

text \<open>
  The class \<open>Grid\<close> (src/xtgeo/grid3d/grid.py) keeps the grid dimensions, three
  handles to flat native arrays (pillar coordinates, corner depths, active-cell
  indicator), a stored number of active cells, a lazily filled array of active
  indices and the list of attached property objects.

  Python floats are modelled as reals (rounding and range are outside the model),
  Python and C integers as \<open>int\<close>, counts and array positions as \<open>nat\<close>. A native
  array behind a SWIG handle is a list; the handle \<open>None\<close> is \<open>None\<close>.
\<close>

text \<open>The exceptions the class raises, each with its message.\<close>

datatype error =
    IndexError string
  | ValueError string
  | RuntimeWarning string
  | Exception string
  | NullHandle


text \<open>What \<open>Grid\<close> reads of a \<open>GridProperty\<close> object: its name and its dimensions.\<close>

record gridprop =
  gp_name :: string
  gp_ncol :: nat
  gp_nrow :: nat
  gp_nlay :: nat

record grid =
  self_ncol :: nat
  self_nrow :: nat
  self_nlay :: nat
  self_nsubs :: nat
  self_p_coord_v :: "real list option"
  self_p_zcorn_v :: "real list option"
  self_p_actnum_v :: "int list option"
  self_nactive :: int
  self_actnum_indices :: "nat list option"
  self_props :: "gridprop list"
  self_undef :: real
  self_undef_limit :: real

text \<open>
  \<open>Grid.__init__\<close> called with no positional argument (\<open>len(args) \<noteq> 1\<close>, so no file is
  imported). The two constants \<open>_cxtgeo.UNDEF\<close> and \<open>_cxtgeo.UNDEF_LIMIT\<close> belong to
  the native extension and are parameters here.
\<close>

definition Grid_init :: "real \<Rightarrow> real \<Rightarrow> grid" where
  "Grid_init UNDEF UNDEF_LIMIT =
     \<lparr> self_ncol = 4, self_nrow = 3, self_nlay = 5, self_nsubs = 0,
       self_p_coord_v = None, self_p_zcorn_v = None, self_p_actnum_v = None,
       self_nactive = - 999, self_actnum_indices = None,
       self_props = [],
       self_undef = UNDEF, self_undef_limit = UNDEF_LIMIT \<rparr>"

subsection \<open>Read-only properties\<close>

definition nactive :: "grid \<Rightarrow> int" where
  "nactive g = self_nactive g"

definition ntotal :: "grid \<Rightarrow> nat" where
  "ntotal g = self_ncol g * self_nrow g * self_nlay g"

definition props :: "grid \<Rightarrow> gridprop list" where
  "props g = self_props g"

subsection \<open>The \<open>props\<close> setter\<close>

text \<open>
  The test of the loop body: the property's dimensions differ from the grid's.
\<close>

definition dims_differ :: "grid \<Rightarrow> gridprop \<Rightarrow> bool" where
  "dims_differ g l \<longleftrightarrow>
     gp_ncol l \<noteq> self_ncol g \<or> gp_nrow l \<noteq> self_nrow g \<or> gp_nlay l \<noteq> self_nlay g"

definition props_message :: "gridprop \<Rightarrow> string" where
  "props_message l = ''Property NX NY NZ <'' @ gp_name l @ ''> does not match grid!''"

text \<open>The \<open>for l in list\<close> loop: the first property that differs raises.\<close>

fun props_loop :: "grid \<Rightarrow> gridprop list \<Rightarrow> error option" where
  "props_loop g [] = None"
| "props_loop g (l # ls) =
     (if dims_differ g l then Some (IndexError (props_message l)) else props_loop g ls)"

text \<open>
  A method that can raise returns the exception (if any) together with the state of the
  object at that moment.
\<close>

definition props_setter :: "grid \<Rightarrow> gridprop list \<Rightarrow> error option \<times> grid" where
  "props_setter g list =
     (case props_loop g list of
        Some e \<Rightarrow> (Some e, g)
      | None \<Rightarrow> (None, g\<lparr>self_props := list\<rparr>))"


text \<open>
  The base class \<open>Grid3D\<close> is not among the sources; its properties \<open>ncol\<close>, \<open>nrow\<close>
  and \<open>nlay\<close> read the stored dimensions.
\<close>

definition ncol :: "grid \<Rightarrow> nat" where
  "ncol g = self_ncol g"

definition nrow :: "grid \<Rightarrow> nat" where
  "nrow g = self_nrow g"

definition nlay :: "grid \<Rightarrow> nat" where
  "nlay g = self_nlay g"

subsection \<open>The active-cell indicator and its indices\<close>

text \<open>
  \<open>get_actnum\<close> builds a property object over the native array behind
  \<open>_p_actnum_v\<close>; the model returns the values of that object. A method that has to
  hand a handle that is still \<open>None\<close> to the native layer cannot run; the model ends
  it with \<open>NullHandle\<close> and the object as it was.
\<close>

definition get_actnum :: "grid \<Rightarrow> error + int list" where
  "get_actnum g =
     (case self_p_actnum_v g of None \<Rightarrow> Inl NullHandle | Some actnum \<Rightarrow> Inr actnum)"

text \<open>\<open>numpy.flatnonzero\<close>: the positions of the entries that are not zero, ascending.\<close>

definition flatnonzero :: "int list \<Rightarrow> nat list" where
  "flatnonzero vs = map fst (filter (\<lambda>(i, v). v \<noteq> 0) (enumerate 0 vs))"

text \<open>
  The property \<open>actnum_indices\<close>: it computes the indices only while the stored
  array is \<open>None\<close>, stores them, and returns what is stored.
\<close>

definition actnum_indices :: "grid \<Rightarrow> (error + nat list) \<times> grid" where
  "actnum_indices g =
     (case self_actnum_indices g of
        Some ix \<Rightarrow> (Inr ix, g)
      | None \<Rightarrow>
          (case get_actnum g of
             Inl e \<Rightarrow> (Inl e, g)
           | Inr actnum \<Rightarrow>
               (Inr (flatnonzero actnum),
                g\<lparr>self_actnum_indices := Some (flatnonzero actnum)\<rparr>)))"

subsection \<open>Corners of one cell\<close>

text \<open>
  Modelled from the spec: \<open>GridProperty.values3d\<close> (grid_property.py is not among the
  sources). The specification fixes the linear cell index as
  \<open>k*nrow*ncol + j*ncol + i\<close> (0-based) and lets an index out of range fail with an
  IndexError-kind condition; numpy counts a negative index from the end of its axis.
\<close>

definition np_axis :: "nat \<Rightarrow> int \<Rightarrow> error + nat" where
  "np_axis n idx =
     (if 0 \<le> idx \<and> idx < int n then Inr (nat idx)
      else if - int n \<le> idx \<and> idx < 0 then Inr (nat (idx + int n))
      else Inl (IndexError ''index is out of bounds''))"

definition values3d ::
  "nat \<Rightarrow> nat \<Rightarrow> nat \<Rightarrow> int list \<Rightarrow> int \<Rightarrow> int \<Rightarrow> int \<Rightarrow> error + int" where
  "values3d nc nr nl vals i j k =
     (case np_axis nc i of Inl e \<Rightarrow> Inl e | Inr i0 \<Rightarrow>
      (case np_axis nr j of Inl e \<Rightarrow> Inl e | Inr j0 \<Rightarrow>
       (case np_axis nl k of Inl e \<Rightarrow> Inl e | Inr k0 \<Rightarrow>
          Inr (vals ! (k0 * nr * nc + j0 * nc + i0)))))"

text \<open>
  The native routine \<open>grd3d_corners\<close> gets \<open>i, j, k\<close>, the dimensions and the
  coordinate and corner-depth arrays and fills a fresh array of 24 doubles; here it
  returns the content of that array by position. The routines of the cxtgeo extension
  are not among the sources: each method takes the routine it calls as its first
  argument.
\<close>

type_synonym corners_routine =
  "int \<Rightarrow> int \<Rightarrow> int \<Rightarrow> nat \<Rightarrow> nat \<Rightarrow> nat \<Rightarrow> real list \<Rightarrow> real list \<Rightarrow> nat \<Rightarrow> real"

text \<open>
  \<open>get_xyz_cell_corners(ijk, mask)\<close>: \<open>Inr None\<close> is the Python result \<open>None\<close>,
  \<open>Inr (Some cs)\<close> the tuple \<open>cs\<close>. The argument \<open>mask\<close> is a bool, written \<open>mask'\<close>
  (\<open>mask\<close> is a constant of the library).
\<close>

definition get_xyz_cell_corners ::
  "corners_routine \<Rightarrow> grid \<Rightarrow> int \<times> int \<times> int \<Rightarrow> bool \<Rightarrow> error + real list option" where
  "get_xyz_cell_corners grd3d_corners g ijk mask' =
     (case ijk of (i, j, k) \<Rightarrow>
        (case (if mask'
               then (case get_actnum g of
                       Inl e \<Rightarrow> Inl e
                     | Inr actnum \<Rightarrow>
                         (case values3d (self_ncol g) (self_nrow g) (self_nlay g) actnum
                                 (i - 1) (j - 1) (k - 1) of
                            Inl e \<Rightarrow> Inl e
                          | Inr iact \<Rightarrow> Inr (iact = 0)))
               else Inr False) of
           Inl e \<Rightarrow> Inl e
         | Inr True \<Rightarrow> Inr None
         | Inr False \<Rightarrow>
             (case (self_p_coord_v g, self_p_zcorn_v g) of
                (Some coord, Some zcorn) \<Rightarrow>
                  Inr (Some (map (grd3d_corners i j k (ncol g) (nrow g) (nlay g) coord zcorn)
                               [0..<24]))
              | _ \<Rightarrow> Inl NullHandle)))"

subsection \<open>Operations that change the active-cell indicator\<close>

text \<open>The Python values a caller can pass as \<open>threshold\<close>.\<close>

datatype pyval = PyInt int | PyBool bool | PyFloat real | PyStr string | PyNone

text \<open>\<open>isinstance(v, int)\<close> (\<open>bool\<close> is a subclass of \<open>int\<close>) and \<open>isinstance(v, float)\<close>.\<close>

fun isinstance_int :: "pyval \<Rightarrow> bool" where
  "isinstance_int (PyInt n) = True"
| "isinstance_int (PyBool b) = True"
| "isinstance_int v = False"

fun isinstance_float :: "pyval \<Rightarrow> bool" where
  "isinstance_float (PyFloat x) = True"
| "isinstance_float v = False"

text \<open>\<open>float(v)\<close> for an instance of \<open>int\<close>, and the number a float holds.\<close>

fun py_float :: "pyval \<Rightarrow> real" where
  "py_float (PyInt n) = real_of_int n"
| "py_float (PyBool b) = (if b then 1 else 0)"
| "py_float (PyFloat x) = x"
| "py_float v = 0"

text \<open>
  \<open>grd3d_inact_by_dz\<close> gets the dimensions, the corner depths, the indicator array,
  the threshold and the flip; it writes the indicator array, whose new content it returns
  here.
\<close>

type_synonym inact_by_dz_routine =
  "nat \<Rightarrow> nat \<Rightarrow> nat \<Rightarrow> real list \<Rightarrow> int list \<Rightarrow> real \<Rightarrow> int \<Rightarrow> int list"

definition inactivate_by_dz ::
  "inact_by_dz_routine \<Rightarrow> grid \<Rightarrow> pyval \<Rightarrow> error option \<times> grid" where
  "inactivate_by_dz grd3d_inact_by_dz g threshold0 =
     (let threshold =
            (if isinstance_int threshold0 then PyFloat (py_float threshold0) else threshold0)
      in if \<not> isinstance_float threshold
         then (Some (ValueError ''The threshold is not a float or int''), g)
         else
           (let nflip = 1 in
              (case (self_p_zcorn_v g, self_p_actnum_v g) of
                 (Some zcorn, Some actnum) \<Rightarrow>
                   (None,
                    g\<lparr>self_p_actnum_v :=
                        Some (grd3d_inact_by_dz (ncol g) (nrow g) (nlay g) zcorn actnum
                                (py_float threshold) nflip)\<rparr>)
               | _ \<Rightarrow> (Some NullHandle, g))))"

text \<open>
  The argument \<open>poly\<close>: an instance of \<open>xtgeo.xyz.Polygons\<close>, which holds polygons (the
  X and Y of their points), or any other object.
\<close>

type_synonym polygon = "(real \<times> real) list"

datatype pyobject = Polygons "polygon list" | NotPolygons

text \<open>
  \<open>Polygons.get_xyz_dataframe\<close> is not among the sources; the comment at its call
  says what it returns: the points, where each polygon is ended by a 999 value.
\<close>

definition get_xyz_dataframe :: "polygon list \<Rightarrow> (real \<times> real) list" where
  "get_xyz_dataframe ps = concat (map (\<lambda>p. p @ [(999, 999)]) ps)"

text \<open>
  \<open>grd3d_inact_outside_pol\<close> gets the X and Y columns, the dimensions, the three
  arrays, the layer range, the force-close flag and the method; it writes the indicator
  array and returns a status. Here it returns the status and the new indicator array.
\<close>

type_synonym inact_pol_routine =
  "real list \<Rightarrow> real list \<Rightarrow> nat \<Rightarrow> nat \<Rightarrow> nat \<Rightarrow> real list \<Rightarrow> real list \<Rightarrow> int list \<Rightarrow>
   int \<Rightarrow> int \<Rightarrow> int \<Rightarrow> int \<Rightarrow> int \<times> int list"

definition inactivate_inside ::
  "inact_pol_routine \<Rightarrow> grid \<Rightarrow> pyobject \<Rightarrow> (int \<times> int) option \<Rightarrow> bool \<Rightarrow> bool \<Rightarrow>
   error option \<times> grid" where
  "inactivate_inside grd3d_inact_outside_pol g poly layer_range inside force_close =
     (case poly of
        NotPolygons \<Rightarrow> (Some (ValueError ''Input polygon not a XTGeo Polygons instance''), g)
      | Polygons ps \<Rightarrow>
          (let (k1, k2) = (case layer_range of Some r \<Rightarrow> r | None \<Rightarrow> (1, int (nlay g)));
               method = (if \<not> inside then 1 else 0);
               iforce = (if force_close then 1 else 0);
               dfxyz = get_xyz_dataframe ps;
               xc = map fst dfxyz;
               yc = map snd dfxyz
           in (case (self_p_coord_v g, self_p_zcorn_v g, self_p_actnum_v g) of
                 (Some coord, Some zcorn, Some actnum) \<Rightarrow>
                   (let (ier, actnum') =
                          grd3d_inact_outside_pol xc yc (ncol g) (nrow g) (nlay g)
                            coord zcorn actnum k1 k2 iforce method;
                        g' = g\<lparr>self_p_actnum_v := Some actnum'\<rparr>
                    in if ier = 1
                       then (Some (RuntimeWarning
                                ''Problems with one or more polygons. Not closed?''), g')
                       else (None, g'))
               | _ \<Rightarrow> (Some NullHandle, g))))"

definition inactivate_outside ::
  "inact_pol_routine \<Rightarrow> grid \<Rightarrow> pyobject \<Rightarrow> (int \<times> int) option \<Rightarrow> error option \<times> grid" where
  "inactivate_outside grd3d_inact_outside_pol g poly layer_range =
     inactivate_inside grd3d_inact_outside_pol g poly layer_range False False"

text \<open>
  \<open>grd3d_collapse_inact\<close> gets the dimensions and writes the corner depths and the
  indicator array it is handed; here it returns their new contents.
\<close>

type_synonym collapse_routine =
  "nat \<Rightarrow> nat \<Rightarrow> nat \<Rightarrow> real list \<Rightarrow> int list \<Rightarrow> real list \<times> int list"

definition collapse_inactive_cells :: "collapse_routine \<Rightarrow> grid \<Rightarrow> error option \<times> grid" where
  "collapse_inactive_cells grd3d_collapse_inact g =
     (case (self_p_zcorn_v g, self_p_actnum_v g) of
        (Some zcorn, Some actnum) \<Rightarrow>
          (let (zcorn', actnum') = grd3d_collapse_inact (ncol g) (nrow g) (nlay g) zcorn actnum
           in (None, g\<lparr>self_p_zcorn_v := Some zcorn', self_p_actnum_v := Some actnum'\<rparr>))
      | _ \<Rightarrow> (Some NullHandle, g))"

text \<open>
  \<open>grd3d_reduce_onelayer\<close> gets the dimensions, the old corner depths and indicator
  array and an option (always 0), and fills three fresh objects: the new corner depths,
  the new indicator array and the new number of active cells, returned here.
\<close>

type_synonym reduce_routine =
  "nat \<Rightarrow> nat \<Rightarrow> nat \<Rightarrow> real list \<Rightarrow> int list \<Rightarrow> int \<Rightarrow> real list \<times> int list \<times> int"

definition reduce_to_one_layer :: "reduce_routine \<Rightarrow> grid \<Rightarrow> error option \<times> grid" where
  "reduce_to_one_layer grd3d_reduce_onelayer g =
     (case (self_p_zcorn_v g, self_p_actnum_v g) of
        (Some zcorn, Some actnum) \<Rightarrow>
          (let (ptr_new_zcorn_v, ptr_new_actnum_v, ptr_new_num_act) =
                 grd3d_reduce_onelayer (self_ncol g) (self_nrow g) (self_nlay g) zcorn actnum 0
           in (None,
               g\<lparr>self_nlay := 1,
                 self_p_zcorn_v := Some ptr_new_zcorn_v,
                 self_p_actnum_v := Some ptr_new_actnum_v,
                 self_nactive := ptr_new_num_act,
                 self_nsubs := 0,
                 self_props := []\<rparr>))
      | _ \<Rightarrow> (Some NullHandle, g))"

subsection \<open>Translation and flipping\<close>

text \<open>
  \<open>grd3d_translate\<close> gets the dimensions, the three flips, the three shifts and writes
  the coordinate and corner-depth arrays; it returns a status. Here it returns the
  status and the new contents of the two arrays.
\<close>

type_synonym translate_routine =
  "nat \<Rightarrow> nat \<Rightarrow> nat \<Rightarrow> int \<Rightarrow> int \<Rightarrow> int \<Rightarrow> real \<Rightarrow> real \<Rightarrow> real \<Rightarrow> real list \<Rightarrow> real list \<Rightarrow>
   int \<times> real list \<times> real list"

definition translate_coordinates ::
  "translate_routine \<Rightarrow> grid \<Rightarrow> real \<times> real \<times> real \<Rightarrow> int \<times> int \<times> int \<Rightarrow>
   error option \<times> grid" where
  "translate_coordinates grd3d_translate g translate flip =
     (case translate of (tx, ty, tz) \<Rightarrow>
      (case flip of (fx, fy, fz) \<Rightarrow>
        (case (self_p_coord_v g, self_p_zcorn_v g) of
           (Some coord, Some zcorn) \<Rightarrow>
             (let (ier, coord', zcorn') =
                    grd3d_translate (self_ncol g) (self_nrow g) (self_nlay g)
                      fx fy fz tx ty tz coord zcorn;
                  g' = g\<lparr>self_p_coord_v := Some coord', self_p_zcorn_v := Some zcorn'\<rparr>
              in if ier \<noteq> 0
                 then (Some (Exception ''Something went wrong in translate''), g')
                 else (None, g'))
         | _ \<Rightarrow> (Some NullHandle, g))))"

section \<open>The native routines, from the specification\<close>

text \<open>
  Modelled from the spec: the layout of the corner depths, which the routines of the
  cxtgeo extension (not among the sources) read. The specification gives the array
  \<open>ncol*nrow*(nlay+1)*4\<close> entries, four corner depths for each footprint at each layer
  boundary, the depths at boundary \<open>k\<close> shared by the layers \<open>k-1\<close> and \<open>k\<close>, and
  the linear cell index \<open>k*nrow*ncol + j*ncol + i\<close>: the four depths on top of the cell
  with linear index \<open>ib\<close> start at \<open>4*ib\<close>, those at its base at \<open>4*(ib + nrow*ncol)\<close>.
  The thickness of a cell is the average of its four vertical edge lengths, with the
  sign of the flip.
\<close>

definition cell_dz :: "nat \<Rightarrow> nat \<Rightarrow> real list \<Rightarrow> int \<Rightarrow> nat \<Rightarrow> real" where
  "cell_dz nc nr zcorn nflip ib =
     real_of_int nflip *
     sum_list (map (\<lambda>c. zcorn ! (4 * (ib + nr * nc) + c) - zcorn ! (4 * ib + c)) [0, 1, 2, 3])
     / 4"

text \<open>
  Modelled from the spec: \<open>grd3d_inact_by_dz\<close>. For every cell the thickness is
  computed (whether the cell is active or not); where it is below the threshold the
  entry of the indicator array becomes 0.
\<close>

definition grd3d_inact_by_dz :: inact_by_dz_routine where
  "grd3d_inact_by_dz nc nr nl zcorn actnum threshold nflip =
     map (\<lambda>(ib, a). if ib < nc * nr * nl \<and> cell_dz nc nr zcorn nflip ib < threshold
                     then 0 else a)
       (enumerate 0 actnum)"

text \<open>
  Modelled from the spec: \<open>grd3d_reduce_onelayer\<close>. The new corner depths are the
  topmost top-face depths and the bottommost base-face depths of each footprint; the
  new indicator entry of a footprint is active if any layer of that footprint was
  active; the number of active cells is counted again from the new entries.
\<close>

definition grd3d_reduce_onelayer :: reduce_routine where
  "grd3d_reduce_onelayer nc nr nl zcorn actnum option =
     (let nfoot = nc * nr;
          new_zcorn = take (4 * nfoot) zcorn @ take (4 * nfoot) (drop (4 * nfoot * nl) zcorn);
          new_actnum =
            map (\<lambda>f. if list_ex (\<lambda>k. actnum ! (k * nr * nc + f) \<noteq> 0) [0..<nl]
                      then 1 else 0)
              [0..<nfoot];
          new_num_act = int (length (filter (\<lambda>v. v \<noteq> 0) new_actnum))
      in (new_zcorn, new_actnum, new_num_act))"

text \<open>
  Modelled from the spec: \<open>grd3d_translate\<close>. The flips must be 1 or -1; any other
  value fails with a status that is not 0 before anything is written. Otherwise every
  pillar coordinate (the array holds X, Y, Z in turn) and every corner depth is shifted
  and flipped along its axis, and the status is 0.
\<close>

definition flip_ok :: "int \<Rightarrow> bool" where
  "flip_ok f \<longleftrightarrow> f = 1 \<or> f = - 1"

definition grd3d_translate :: translate_routine where
  "grd3d_translate nc nr nl fx fy fz tx ty tz coord zcorn =
     (if flip_ok fx \<and> flip_ok fy \<and> flip_ok fz
      then (0,
            map (\<lambda>(n, v). if n mod 3 = 0 then real_of_int fx * (v + tx)
                           else if n mod 3 = 1 then real_of_int fy * (v + ty)
                           else real_of_int fz * (v + tz))
              (enumerate 0 coord),
            map (\<lambda>z. real_of_int fz * (z + tz)) zcorn)
      else (- 1, coord, zcorn))"

text \<open>
  Modelled from the spec: \<open>grd3d_inact_outside_pol\<close>. The X and Y columns hold the
  points of the polygons, each polygon ended by a 999 value. A polygon is closed when
  its last point is its first; an open polygon is closed by the routine when
  force-close is set, and is malformed otherwise. The routine sets to 0 the indicator
  entry of every cell of the layers \<open>k1..k2\<close> (counted from 1, inclusive) whose
  representative point falls inside (method 0) or outside (method 1) one of the valid
  polygons; the malformed polygons are left out, and the status is 1 when there is one.
  The specification leaves open which point represents a cell and how a point is tested
  against a polygon: both are parameters, \<open>midxy\<close> and \<open>chk\<close>.
\<close>

fun pol_split :: "(real \<times> real) list \<Rightarrow> polygon \<Rightarrow> polygon list" where
  "pol_split [] acc = []"
| "pol_split (pt # rest) acc =
     (if fst pt = 999 then rev acc # pol_split rest [] else pol_split rest (pt # acc))"

definition pol_closed :: "polygon \<Rightarrow> bool" where
  "pol_closed p \<longleftrightarrow> p = [] \<or> hd p = last p"

definition pol_valid :: "int \<Rightarrow> polygon \<Rightarrow> bool" where
  "pol_valid iforce p \<longleftrightarrow> pol_closed p \<or> iforce = 1"

definition pol_close :: "polygon \<Rightarrow> polygon" where
  "pol_close p = (if pol_closed p then p else p @ [hd p])"

type_synonym midpoint_routine =
  "nat \<Rightarrow> nat \<Rightarrow> nat \<Rightarrow> real list \<Rightarrow> real list \<Rightarrow> nat \<Rightarrow> real \<times> real"

definition grd3d_inact_outside_pol ::
  "midpoint_routine \<Rightarrow> (real \<times> real \<Rightarrow> polygon \<Rightarrow> bool) \<Rightarrow> inact_pol_routine" where
  "grd3d_inact_outside_pol midxy chk xc yc nc nr nl coord zcorn actnum k1 k2 iforce method =
     (let pols = pol_split (zip xc yc) [];
          valid = map pol_close (filter (pol_valid iforce) pols);
          ier = (if list_all (pol_valid iforce) pols then 0 else 1);
          hit = (\<lambda>ib. ib < nc * nr * nl \<and>
                       k1 \<le> int (ib div (nc * nr)) + 1 \<and> int (ib div (nc * nr)) + 1 \<le> k2 \<and>
                       list_ex (\<lambda>p. if method = 0
                                     then chk (midxy nc nr nl coord zcorn ib) p
                                     else \<not> chk (midxy nc nr nl coord zcorn ib) p) valid)
      in (ier, map (\<lambda>(ib, a). if hit ib then 0 else a) (enumerate 0 actnum)))"





section \<open>Grids with their arrays\<close>

text \<open>
  A grid as an import leaves it: the three handles hold arrays of the lengths that
  belong to the dimensions, and the indicator array holds 0 and 1 only.
\<close>

definition grid_ok :: "grid \<Rightarrow> bool" where
  "grid_ok g \<longleftrightarrow>
     (case self_p_coord_v g of None \<Rightarrow> False | Some coord \<Rightarrow>
      (case self_p_zcorn_v g of None \<Rightarrow> False | Some zcorn \<Rightarrow>
       (case self_p_actnum_v g of None \<Rightarrow> False | Some actnum \<Rightarrow>
          length coord = (self_ncol g + 1) * (self_nrow g + 1) * 6 \<and>
          length zcorn = self_ncol g * self_nrow g * (self_nlay g + 1) * 4 \<and>
          length actnum = self_ncol g * self_nrow g * self_nlay g \<and>
          list_all (\<lambda>v. v = 0 \<or> v = 1) actnum)))"

text \<open>The indicator array of a grid (empty while there is none) and its sum.\<close>

definition actnum_of :: "grid \<Rightarrow> int list" where
  "actnum_of g = (case self_p_actnum_v g of None \<Rightarrow> [] | Some actnum \<Rightarrow> actnum)"

text \<open>A cell index \<open>(i, j, k)\<close>, counted from 1, that lies in the grid.\<close>

definition ijk_in_range :: "grid \<Rightarrow> int \<times> int \<times> int \<Rightarrow> bool" where
  "ijk_in_range g ijk \<longleftrightarrow>
     (case ijk of (i, j, k) \<Rightarrow>
        1 \<le> i \<and> i \<le> int (self_ncol g) \<and> 1 \<le> j \<and> j \<le> int (self_nrow g) \<and>
        1 \<le> k \<and> k \<le> int (self_nlay g))"

text \<open>The indicator entry of the cell \<open>(i, j, k)\<close>, at its linear index.\<close>

definition actnum_at :: "grid \<Rightarrow> int \<times> int \<times> int \<Rightarrow> int" where
  "actnum_at g ijk =
     (case ijk of (i, j, k) \<Rightarrow>
        actnum_of g ! (nat (k - 1) * self_nrow g * self_ncol g + nat (j - 1) * self_ncol g
                        + nat (i - 1)))"

text \<open>
  Two small grids, as an import would leave them. \<open>grid_2x1x1\<close>: two columns, one row,
  one layer, cells of 100 by 100, the first 2 thick and the second 10 thick, both
  active. \<open>grid_1x1x2\<close>: one column of two layers, 2 and 10 thick, of which only the
  lower one is active.
\<close>

definition grid_2x1x1 :: grid where
  "grid_2x1x1 =
     (Grid_init (10 ^ 33) (99 * 10 ^ 31))
       \<lparr> self_ncol := 2, self_nrow := 1, self_nlay := 1,
         self_p_coord_v := Some [0, 0, 0, 0, 0, 10,  100, 0, 0, 100, 0, 10,
                                 200, 0, 0, 200, 0, 10,  0, 100, 0, 0, 100, 10,
                                 100, 100, 0, 100, 100, 10,  200, 100, 0, 200, 100, 10],
         self_p_zcorn_v := Some [0, 0, 0, 0,  0, 0, 0, 0,  2, 2, 2, 2,  10, 10, 10, 10],
         self_p_actnum_v := Some [1, 1],
         self_nactive := 2 \<rparr>"

definition grid_1x1x2 :: grid where
  "grid_1x1x2 =
     (Grid_init (10 ^ 33) (99 * 10 ^ 31))
       \<lparr> self_ncol := 1, self_nrow := 1, self_nlay := 2,
         self_p_coord_v := Some [0, 0, 0, 0, 0, 12,  100, 0, 0, 100, 0, 12,
                                 0, 100, 0, 0, 100, 12,  100, 100, 0, 100, 100, 12],
         self_p_zcorn_v := Some [0, 0, 0, 0,  2, 2, 2, 2,  12, 12, 12, 12],
         self_p_actnum_v := Some [0, 1],
         self_nactive := 1 \<rparr>"

text \<open>Two property objects: one of the default dimensions 4, 3, 5 and one that differs.\<close>

definition prop_4x3x5 :: gridprop where
  "prop_4x3x5 = \<lparr> gp_name = ''PORO'', gp_ncol = 4, gp_nrow = 3, gp_nlay = 5 \<rparr>"

definition prop_2x3x5 :: gridprop where
  "prop_2x3x5 = \<lparr> gp_name = ''BAD'', gp_ncol = 2, gp_nrow = 3, gp_nlay = 5 \<rparr>"

text \<open>A property object of the dimensions of \<open>grid_1x1x2\<close>.\<close>

definition prop_1x1x2 :: gridprop where
  "prop_1x1x2 = \<lparr> gp_name = ''ZONE'', gp_ncol = 1, gp_nrow = 1, gp_nlay = 2 \<rparr>"



section \<open>Construction\<close>

lemma props_loop_None: "props_loop g ls = None \<longleftrightarrow> (\<forall>l\<in>set ls. \<not> dims_differ g l)"
  by (induction ls) auto

lemma props_loop_Some:
  "\<exists>l\<in>set ls. dims_differ g l \<Longrightarrow>
   props_loop g ls = Some (IndexError (props_message (the (find (dims_differ g) ls))))"
  by (induction ls) auto

text \<open>
  Claim C9, as the code has it: a grid constructed with no argument has the dimensions
  4, 3, 5 and therefore 60 cells in total, but it holds no coordinate, corner-depth or
  active-cell array, no attached property, and its number of active cells reads the
  placeholder -999.
\<close>

theorem Grid_init_default:
  "self_ncol (Grid_init u ul) = 4 \<and> self_nrow (Grid_init u ul) = 3 \<and>
   self_nlay (Grid_init u ul) = 5 \<and> ntotal (Grid_init u ul) = 60 \<and>
   self_p_coord_v (Grid_init u ul) = None \<and> self_p_zcorn_v (Grid_init u ul) = None \<and>
   self_p_actnum_v (Grid_init u ul) = None \<and> props (Grid_init u ul) = [] \<and>
   nactive (Grid_init u ul) = - 999"
  by (simp add: Grid_init_def ntotal_def props_def nactive_def)

text \<open>
  Claim C9 as the specification states it (the count read right after construction is
  60) does not hold.
\<close>

theorem Grid_init_nactive_not_60: "nactive (Grid_init 0 0) \<noteq> 60"
  by (simp add: Grid_init_def nactive_def)

section \<open>Attached properties\<close>

text \<open>
  Claim C10: setting \<open>props\<close> raises \<open>IndexError\<close> (naming the first offending property)
  as soon as one property of the list differs from the grid in \<open>ncol\<close>, \<open>nrow\<close> or
  \<open>nlay\<close>, and then the grid, its attached list included, is unchanged; otherwise the
  list is attached. Hence a list attached through the setter only holds properties of
  the grid's dimensions.
\<close>

theorem props_setter_checks_dims:
  "((\<exists>l\<in>set ls. dims_differ g l) \<longrightarrow>
      props_setter g ls =
        (Some (IndexError (props_message (the (find (dims_differ g) ls)))), g)) \<and>
   (\<not> (\<exists>l\<in>set ls. dims_differ g l) \<longrightarrow>
      props_setter g ls = (None, g\<lparr>self_props := ls\<rparr>)) \<and>
   (fst (props_setter g ls) = None \<longrightarrow>
      props (snd (props_setter g ls)) = ls \<and>
      (\<forall>l\<in>set (props (snd (props_setter g ls))).
         gp_ncol l = self_ncol (snd (props_setter g ls)) \<and>
         gp_nrow l = self_nrow (snd (props_setter g ls)) \<and>
         gp_nlay l = self_nlay (snd (props_setter g ls))))"
proof (cases "\<exists>l\<in>set ls. dims_differ g l")
  case True
  then show ?thesis
    by (simp add: props_setter_def props_loop_Some)
next
  case False
  then have "props_loop g ls = None"
    by (simp add: props_loop_None)
  with False show ?thesis
    by (simp add: props_setter_def props_def dims_differ_def)
qed

theorem props_setter_checks_dims_witness:
  "props_setter (Grid_init 0 0) [prop_4x3x5, prop_2x3x5] =
     (Some (IndexError ''Property NX NY NZ <BAD> does not match grid!''), Grid_init 0 0) \<and>
   props_setter (Grid_init 0 0) [prop_4x3x5] =
     (None, (Grid_init 0 0)\<lparr>self_props := [prop_4x3x5]\<rparr>)"
  using props_setter_checks_dims [of "[prop_4x3x5, prop_2x3x5]" "Grid_init 0 0"]
        props_setter_checks_dims [of "[prop_4x3x5]" "Grid_init 0 0"]
  by (simp add: dims_differ_def Grid_init_def prop_4x3x5_def prop_2x3x5_def props_message_def)

section \<open>Facts about the example grids\<close>

lemma grid_2x1x1_fields:
  "self_ncol grid_2x1x1 = 2" "self_nrow grid_2x1x1 = 1" "self_nlay grid_2x1x1 = 1"
  "self_p_coord_v grid_2x1x1 =
     Some [0, 0, 0, 0, 0, 10,  100, 0, 0, 100, 0, 10,  200, 0, 0, 200, 0, 10,
           0, 100, 0, 0, 100, 10,  100, 100, 0, 100, 100, 10,  200, 100, 0, 200, 100, 10]"
  "self_p_zcorn_v grid_2x1x1 = Some [0, 0, 0, 0,  0, 0, 0, 0,  2, 2, 2, 2,  10, 10, 10, 10]"
  "self_p_actnum_v grid_2x1x1 = Some [1, 1]"
  "self_nactive grid_2x1x1 = 2" "self_actnum_indices grid_2x1x1 = None"
  "self_props grid_2x1x1 = []"
  by (simp_all add: grid_2x1x1_def Grid_init_def)

lemma grid_1x1x2_fields:
  "self_ncol grid_1x1x2 = 1" "self_nrow grid_1x1x2 = 1" "self_nlay grid_1x1x2 = 2"
  "self_p_coord_v grid_1x1x2 =
     Some [0, 0, 0, 0, 0, 12,  100, 0, 0, 100, 0, 12,
           0, 100, 0, 0, 100, 12,  100, 100, 0, 100, 100, 12]"
  "self_p_zcorn_v grid_1x1x2 = Some [0, 0, 0, 0,  2, 2, 2, 2,  12, 12, 12, 12]"
  "self_p_actnum_v grid_1x1x2 = Some [0, 1]"
  "self_nactive grid_1x1x2 = 1" "self_actnum_indices grid_1x1x2 = None"
  "self_props grid_1x1x2 = []"
  by (simp_all add: grid_1x1x2_def Grid_init_def)


lemma grid_1x1x2_ok: "grid_ok grid_1x1x2"
  by (simp add: grid_ok_def grid_1x1x2_fields)

section \<open>Corners of one cell\<close>

lemma np_axis_in_range: "1 \<le> i \<Longrightarrow> i \<le> int n \<Longrightarrow> np_axis n (i - 1) = Inr (nat (i - 1))"
  by (simp add: np_axis_def)

lemma values3d_in_range:
  "1 \<le> i \<Longrightarrow> i \<le> int nc \<Longrightarrow> 1 \<le> j \<Longrightarrow> j \<le> int nr \<Longrightarrow> 1 \<le> k \<Longrightarrow> k \<le> int nl \<Longrightarrow>
   values3d nc nr nl vals (i - 1) (j - 1) (k - 1) =
     Inr (vals ! (nat (k - 1) * nr * nc + nat (j - 1) * nc + nat (i - 1)))"
  by (simp add: values3d_def np_axis_in_range)

text \<open>
  Claim C3: on a grid that holds its arrays, for a cell index \<open>(i, j, k)\<close> in range,
  \<open>get_xyz_cell_corners\<close> returns \<open>None\<close> exactly when \<open>mask\<close> is \<open>True\<close> and the
  indicator entry of the cell is 0; in every other case it returns a tuple of 24
  numbers, the 24 entries the native routine wrote, also for an inactive cell when
  \<open>mask\<close> is \<open>False\<close>. This holds whatever the native routine computes.
\<close>

theorem get_xyz_cell_corners_mask:
  assumes "grid_ok g" and "ijk_in_range g (i, j, k)"
  shows "(get_xyz_cell_corners K g (i, j, k) m = Inr None \<longleftrightarrow> m \<and> actnum_at g (i, j, k) = 0) \<and>
         (\<not> (m \<and> actnum_at g (i, j, k) = 0) \<longrightarrow>
            (\<exists>cs. get_xyz_cell_corners K g (i, j, k) m = Inr (Some cs) \<and> length cs = 24 \<and>
               (\<forall>n<24. cs ! n =
                  K i j k (ncol g) (nrow g) (nlay g) (the (self_p_coord_v g))
                    (the (self_p_zcorn_v g)) n)))"
proof -
  from assms(1) obtain coord zcorn actnum where
    h: "self_p_coord_v g = Some coord" "self_p_zcorn_v g = Some zcorn"
       "self_p_actnum_v g = Some actnum"
    by (auto simp: grid_ok_def split: option.splits)
  from assms(2) have r: "1 \<le> i" "i \<le> int (self_ncol g)" "1 \<le> j" "j \<le> int (self_nrow g)"
      "1 \<le> k" "k \<le> int (self_nlay g)"
    by (simp_all add: ijk_in_range_def)
  have v: "values3d (self_ncol g) (self_nrow g) (self_nlay g) actnum (i - 1) (j - 1) (k - 1) =
             Inr (actnum_at g (i, j, k))"
    using r h by (simp add: values3d_in_range actnum_at_def actnum_of_def)
  show ?thesis
    using h v by (auto simp: get_xyz_cell_corners_def get_actnum_def split: bool.splits)
qed

theorem get_xyz_cell_corners_mask_witness:
  "get_xyz_cell_corners (\<lambda>i j k nc nr nl coord zcorn n. real n) grid_1x1x2 (1, 1, 1) True = Inr None \<and>
   get_xyz_cell_corners (\<lambda>i j k nc nr nl coord zcorn n. real n) grid_1x1x2 (1, 1, 2) True \<noteq> Inr None \<and>
   get_xyz_cell_corners (\<lambda>i j k nc nr nl coord zcorn n. real n) grid_1x1x2 (1, 1, 1) False \<noteq> Inr None"
proof -
  have r: "ijk_in_range grid_1x1x2 (1, 1, 1)" "ijk_in_range grid_1x1x2 (1, 1, 2)"
    by (simp_all add: ijk_in_range_def grid_1x1x2_fields)
  have a: "actnum_at grid_1x1x2 (1, 1, 1) = 0" "actnum_at grid_1x1x2 (1, 1, 2) \<noteq> 0"
    by (simp_all add: actnum_at_def actnum_of_def grid_1x1x2_fields)
  show ?thesis
    using get_xyz_cell_corners_mask [OF grid_1x1x2_ok r(1), of "\<lambda>i j k nc nr nl coord zcorn n. real n" True]
          get_xyz_cell_corners_mask [OF grid_1x1x2_ok r(2), of "\<lambda>i j k nc nr nl coord zcorn n. real n" True]
          get_xyz_cell_corners_mask [OF grid_1x1x2_ok r(1), of "\<lambda>i j k nc nr nl coord zcorn n. real n" False]
          a
    by simp
qed

section \<open>Thickness threshold\<close>



section \<open>The stored count and the cached indices\<close>

lemma inactivate_by_dz_2x1x1:
  "inactivate_by_dz grd3d_inact_by_dz grid_2x1x1 (PyInt 5) =
     (None, grid_2x1x1\<lparr>self_p_actnum_v := Some [0, 1]\<rparr>)"
  by (simp add: inactivate_by_dz_def grid_2x1x1_fields ncol_def nrow_def nlay_def
        grd3d_inact_by_dz_def cell_dz_def)

text \<open>
  Claim C1, evaluated on \<open>grid_2x1x1\<close> (stored count 2, equal to the sum of its
  indicator array): \<open>inactivate_by_dz(5)\<close> returns normally and sets the entry of the
  thin cell to 0, so the array sums to 1, but \<open>nactive\<close> still reads 2. The method
  never assigns \<open>_nactive\<close>.
\<close>

theorem inactivate_by_dz_stale_nactive:
  "nactive grid_2x1x1 = sum_list (actnum_of grid_2x1x1) \<and>
   fst (inactivate_by_dz grd3d_inact_by_dz grid_2x1x1 (PyInt 5)) = None \<and>
   actnum_of (snd (inactivate_by_dz grd3d_inact_by_dz grid_2x1x1 (PyInt 5))) = [0, 1] \<and>
   nactive (snd (inactivate_by_dz grd3d_inact_by_dz grid_2x1x1 (PyInt 5))) = 2 \<and>
   nactive (snd (inactivate_by_dz grd3d_inact_by_dz grid_2x1x1 (PyInt 5))) \<noteq>
     sum_list (actnum_of (snd (inactivate_by_dz grd3d_inact_by_dz grid_2x1x1 (PyInt 5))))"
  by (simp add: inactivate_by_dz_2x1x1 nactive_def actnum_of_def grid_2x1x1_fields)

lemma flatnonzero_set: "set (flatnonzero vs) = {i. i < length vs \<and> vs ! i \<noteq> 0}"
  by (force simp: flatnonzero_def in_set_enumerate_eq image_iff)

lemma flatnonzero_sorted: "sorted (flatnonzero vs) \<and> distinct (flatnonzero vs)"
  unfolding flatnonzero_def
  by (simp add: sorted_filter distinct_map_filter)

text \<open>
  The first read of \<open>actnum_indices\<close> computes the indices from the indicator array and
  stores them; a read that finds stored indices returns them as they are.
\<close>

lemma actnum_indices_first_read:
  "self_actnum_indices g = None \<Longrightarrow> self_p_actnum_v g = Some actnum \<Longrightarrow>
   actnum_indices g =
     (Inr (flatnonzero actnum), g\<lparr>self_actnum_indices := Some (flatnonzero actnum)\<rparr>)"
  by (simp add: actnum_indices_def get_actnum_def)

lemma actnum_indices_cached:
  "self_actnum_indices g = Some ix \<Longrightarrow> actnum_indices g = (Inr ix, g)"
  by (simp add: actnum_indices_def)

lemma actnum_indices_2x1x1:
  "actnum_indices grid_2x1x1 = (Inr [0, 1], grid_2x1x1\<lparr>self_actnum_indices := Some [0, 1]\<rparr>)"
  by (simp add: actnum_indices_def get_actnum_def flatnonzero_def grid_2x1x1_fields)

lemma inactivate_by_dz_2x1x1_cached:
  "inactivate_by_dz grd3d_inact_by_dz (grid_2x1x1\<lparr>self_actnum_indices := Some [0, Suc 0]\<rparr>)
       (PyInt 5) =
     (None, grid_2x1x1\<lparr>self_actnum_indices := Some [0, Suc 0], self_p_actnum_v := Some [0, 1]\<rparr>)"
  by (simp add: inactivate_by_dz_def grid_2x1x1_fields ncol_def nrow_def nlay_def
        grd3d_inact_by_dz_def cell_dz_def)

text \<open>
  Claim C2, evaluated on \<open>grid_2x1x1\<close>: the first read of \<open>actnum_indices\<close> returns
  the ascending indices 0, 1 and stores them; after \<open>inactivate_by_dz(5)\<close> has set the
  first entry of the indicator array to 0, the next read still returns 0, 1, while the
  indices of the entries that are not zero are now just 1. No method resets
  \<open>_actnum_indices\<close>.
\<close>

theorem actnum_indices_stale_after_inactivate:
  "fst (actnum_indices grid_2x1x1) = Inr [0, 1] \<and>
   actnum_of (snd (inactivate_by_dz grd3d_inact_by_dz (snd (actnum_indices grid_2x1x1)) (PyInt 5)))
     = [0, 1] \<and>
   fst (actnum_indices
         (snd (inactivate_by_dz grd3d_inact_by_dz (snd (actnum_indices grid_2x1x1)) (PyInt 5))))
     = Inr [0, 1] \<and>
   flatnonzero
     (actnum_of (snd (inactivate_by_dz grd3d_inact_by_dz (snd (actnum_indices grid_2x1x1)) (PyInt 5))))
     = [1]"
proof -
  have r: "fst (actnum_indices
                 (grid_2x1x1\<lparr>self_actnum_indices := Some [0, Suc 0],
                              self_p_actnum_v := Some [0, 1]\<rparr>))
             = Inr [0, Suc 0]"
    by (simp add: actnum_indices_def)
  have f: "flatnonzero [0, 1] = [1]"
    by (simp add: flatnonzero_def)
  show ?thesis
    by (simp add: actnum_indices_2x1x1 inactivate_by_dz_2x1x1_cached r f actnum_of_def)
qed

lemma inactivate_by_dz_frame:
  "self_nactive (snd (inactivate_by_dz K g v)) = self_nactive g \<and>
   self_actnum_indices (snd (inactivate_by_dz K g v)) = self_actnum_indices g"
  by (simp add: inactivate_by_dz_def Let_def split: option.splits)

lemma inactivate_inside_not_polygons:
  "inactivate_inside K g NotPolygons lr inside fc =
     (Some (ValueError ''Input polygon not a XTGeo Polygons instance''), g)"
  by (simp add: inactivate_inside_def)

lemma inactivate_inside_null:
  "self_p_coord_v g = None \<or> self_p_zcorn_v g = None \<or> self_p_actnum_v g = None \<Longrightarrow>
   inactivate_inside K g (Polygons ps) lr inside fc = (Some NullHandle, g)"
  by (auto simp: inactivate_inside_def Let_def case_prod_beta split: option.splits)

lemma inactivate_inside_result:
  "self_p_coord_v g = Some coord \<Longrightarrow> self_p_zcorn_v g = Some zcorn \<Longrightarrow>
   self_p_actnum_v g = Some actnum \<Longrightarrow>
   K (map fst (get_xyz_dataframe ps)) (map snd (get_xyz_dataframe ps)) (ncol g) (nrow g) (nlay g)
     coord zcorn actnum
     (fst (case lr of Some r \<Rightarrow> r | None \<Rightarrow> (1, int (nlay g))))
     (snd (case lr of Some r \<Rightarrow> r | None \<Rightarrow> (1, int (nlay g))))
     (if fc then 1 else 0) (if \<not> inside then 1 else 0) = (ier, a') \<Longrightarrow>
   inactivate_inside K g (Polygons ps) lr inside fc =
     (if ier = 1
      then Some (RuntimeWarning ''Problems with one or more polygons. Not closed?'') else None,
      g\<lparr>self_p_actnum_v := Some a'\<rparr>)"
  by (simp add: inactivate_inside_def Let_def case_prod_beta)

lemma inactivate_inside_frame:
  "self_nactive (snd (inactivate_inside K g poly lr inside fc)) = self_nactive g \<and>
   self_actnum_indices (snd (inactivate_inside K g poly lr inside fc)) = self_actnum_indices g"
proof (cases poly)
  case NotPolygons
  then show ?thesis by (simp add: inactivate_inside_not_polygons)
next
  case (Polygons ps)
  show ?thesis
  proof (cases "self_p_coord_v g = None \<or> self_p_zcorn_v g = None \<or> self_p_actnum_v g = None")
    case True
    then show ?thesis
      unfolding Polygons by (simp add: inactivate_inside_null)
  next
    case False
    then obtain coord zcorn actnum where
      h: "self_p_coord_v g = Some coord" "self_p_zcorn_v g = Some zcorn"
         "self_p_actnum_v g = Some actnum"
      by auto
    obtain ier a' where
      "K (map fst (get_xyz_dataframe ps)) (map snd (get_xyz_dataframe ps)) (ncol g) (nrow g) (nlay g)
         coord zcorn actnum
         (fst (case lr of Some r \<Rightarrow> r | None \<Rightarrow> (1, int (nlay g))))
         (snd (case lr of Some r \<Rightarrow> r | None \<Rightarrow> (1, int (nlay g))))
         (if fc then 1 else 0) (if \<not> inside then 1 else 0) = (ier, a')"
      by (rule prod.exhaust)
    from inactivate_inside_result [where K = K, OF h this]
    show ?thesis
      unfolding Polygons by simp
  qed
qed

lemma collapse_inactive_cells_frame:
  "self_nactive (snd (collapse_inactive_cells K g)) = self_nactive g \<and>
   self_actnum_indices (snd (collapse_inactive_cells K g)) = self_actnum_indices g"
  by (simp add: collapse_inactive_cells_def Let_def case_prod_beta split: option.splits)

lemma reduce_to_one_layer_frame:
  "self_actnum_indices (snd (reduce_to_one_layer K g)) = self_actnum_indices g"
  by (simp add: reduce_to_one_layer_def Let_def case_prod_beta split: option.splits)

text \<open>
  Whatever the native routines do, \<open>inactivate_by_dz\<close>, \<open>inactivate_inside\<close>,
  \<open>inactivate_outside\<close> and \<open>collapse_inactive_cells\<close> leave the stored count as it
  was, and neither they nor \<open>reduce_to_one_layer\<close> touch the cached indices.
\<close>

theorem mutators_keep_count_and_cache:
  "nactive (snd (inactivate_by_dz K1 g v)) = nactive g \<and>
   nactive (snd (inactivate_inside K2 g poly lr inside fc)) = nactive g \<and>
   nactive (snd (inactivate_outside K2 g poly lr)) = nactive g \<and>
   nactive (snd (collapse_inactive_cells K3 g)) = nactive g \<and>
   self_actnum_indices (snd (inactivate_by_dz K1 g v)) = self_actnum_indices g \<and>
   self_actnum_indices (snd (inactivate_inside K2 g poly lr inside fc)) = self_actnum_indices g \<and>
   self_actnum_indices (snd (inactivate_outside K2 g poly lr)) = self_actnum_indices g \<and>
   self_actnum_indices (snd (collapse_inactive_cells K3 g)) = self_actnum_indices g \<and>
   self_actnum_indices (snd (reduce_to_one_layer K4 g)) = self_actnum_indices g"
  by (simp add: nactive_def inactivate_outside_def inactivate_by_dz_frame inactivate_inside_frame
        collapse_inactive_cells_frame reduce_to_one_layer_frame)

section \<open>Reduction to one layer\<close>

lemma count_nonzero_01:
  "list_all (\<lambda>v. v = 0 \<or> v = (1::int)) xs \<Longrightarrow> int (length (filter (\<lambda>v. v \<noteq> 0) xs)) = sum_list xs"
  by (induction xs) auto

lemma reduce_onelayer_count:
  "grd3d_reduce_onelayer nc nr nl zcorn actnum opt = (z', a', n') \<Longrightarrow>
   n' = sum_list a' \<and> length a' = nc * nr \<and> list_all (\<lambda>v. v = 0 \<or> v = 1) a'"
proof -
  assume h: "grd3d_reduce_onelayer nc nr nl zcorn actnum opt = (z', a', n')"
  define new where "new = map (\<lambda>f. if list_ex (\<lambda>k. actnum ! (k * nr * nc + f) \<noteq> 0) [0..<nl]
                      then 1 else (0::int)) [0..<nc * nr]"
  have "grd3d_reduce_onelayer nc nr nl zcorn actnum opt =
          (take (4 * (nc * nr)) zcorn @ take (4 * (nc * nr)) (drop (4 * (nc * nr) * nl) zcorn),
           new, int (length (filter (\<lambda>v. v \<noteq> 0) new)))"
    by (simp add: grd3d_reduce_onelayer_def Let_def new_def)
  with h have a: "a' = new" and n: "n' = int (length (filter (\<lambda>v. v \<noteq> 0) new))"
    by auto
  have l: "list_all (\<lambda>v. v = 0 \<or> v = 1) new"
    by (auto simp: new_def list_all_iff)
  have len: "length new = nc * nr"
    by (simp add: new_def)
  from a n l len show ?thesis
    by (simp add: count_nonzero_01)
qed


lemma reduce_onelayer_1x1x2:
  "grd3d_reduce_onelayer (Suc 0) (Suc 0) 2 [0, 0, 0, 0,  2, 2, 2, 2,  12, 12, 12, 12] [0, 1] 0 =
     ([0, 0, 0, 0, 12, 12, 12, 12], [1], 1)"
  by (simp add: grd3d_reduce_onelayer_def Let_def eval_nat_numeral)



text \<open>
  Claim C5: on a grid that holds its corner depths and indicator array,
  \<open>reduce_to_one_layer\<close> returns normally with \<open>nlay = 1\<close>, an empty list of attached
  properties, the indicator array the native routine built and, as stored count, the
  number the native routine returned (for any native routine \<open>K\<close>). With the routine
  modelled from the specification that number is the sum of the new single-layer
  indicator array, which has one entry for each cell of the reduced grid.
\<close>

theorem reduce_to_one_layer_result:
  assumes "self_p_zcorn_v g = Some zcorn" and "self_p_actnum_v g = Some actnum"
  shows "fst (reduce_to_one_layer K g) = None \<and>
         nlay (snd (reduce_to_one_layer K g)) = 1 \<and>
         props (snd (reduce_to_one_layer K g)) = [] \<and>
         self_p_actnum_v (snd (reduce_to_one_layer K g)) =
           Some (fst (snd (K (self_ncol g) (self_nrow g) (self_nlay g) zcorn actnum 0))) \<and>
         nactive (snd (reduce_to_one_layer K g)) =
           snd (snd (K (self_ncol g) (self_nrow g) (self_nlay g) zcorn actnum 0)) \<and>
         nactive (snd (reduce_to_one_layer grd3d_reduce_onelayer g)) =
           sum_list (actnum_of (snd (reduce_to_one_layer grd3d_reduce_onelayer g))) \<and>
         length (actnum_of (snd (reduce_to_one_layer grd3d_reduce_onelayer g))) =
           ntotal (snd (reduce_to_one_layer grd3d_reduce_onelayer g))"
proof -
  obtain z' a' n' where k: "K (self_ncol g) (self_nrow g) (self_nlay g) zcorn actnum 0 = (z', a', n')"
    by (cases "K (self_ncol g) (self_nrow g) (self_nlay g) zcorn actnum 0") auto
  obtain z2 a2 n2 where
    r: "grd3d_reduce_onelayer (self_ncol g) (self_nrow g) (self_nlay g) zcorn actnum 0 = (z2, a2, n2)"
    by (cases "grd3d_reduce_onelayer (self_ncol g) (self_nrow g) (self_nlay g) zcorn actnum 0") auto
  from reduce_onelayer_count [OF r] have c: "n2 = sum_list a2" "length a2 = self_ncol g * self_nrow g"
    by simp_all
  show ?thesis
    using assms k r c
    by (simp add: reduce_to_one_layer_def nlay_def props_def nactive_def actnum_of_def ntotal_def)
qed

theorem reduce_to_one_layer_result_witness:
  "fst (reduce_to_one_layer grd3d_reduce_onelayer (grid_1x1x2\<lparr>self_props := [prop_1x1x2]\<rparr>)) = None \<and>
   nlay (snd (reduce_to_one_layer grd3d_reduce_onelayer (grid_1x1x2\<lparr>self_props := [prop_1x1x2]\<rparr>))) = 1 \<and>
   props (snd (reduce_to_one_layer grd3d_reduce_onelayer (grid_1x1x2\<lparr>self_props := [prop_1x1x2]\<rparr>))) = [] \<and>
   actnum_of (snd (reduce_to_one_layer grd3d_reduce_onelayer (grid_1x1x2\<lparr>self_props := [prop_1x1x2]\<rparr>))) = [1] \<and>
   nactive (snd (reduce_to_one_layer grd3d_reduce_onelayer (grid_1x1x2\<lparr>self_props := [prop_1x1x2]\<rparr>))) = 1"
proof -
  have z: "self_p_zcorn_v (grid_1x1x2\<lparr>self_props := [prop_1x1x2]\<rparr>) =
             Some [0, 0, 0, 0,  2, 2, 2, 2,  12, 12, 12, 12]"
    and a: "self_p_actnum_v (grid_1x1x2\<lparr>self_props := [prop_1x1x2]\<rparr>) = Some [0, 1]"
    by (simp_all add: grid_1x1x2_fields)
  from reduce_to_one_layer_result [OF z a, of grd3d_reduce_onelayer]
  show ?thesis
    by (simp add: grid_1x1x2_fields reduce_onelayer_1x1x2 actnum_of_def)
qed




section \<open>Translation and flipping\<close>

lemma translate_coordinates_result:
  "self_p_coord_v g = Some coord \<Longrightarrow> self_p_zcorn_v g = Some zcorn \<Longrightarrow>
   K (self_ncol g) (self_nrow g) (self_nlay g) fx fy fz tx ty tz coord zcorn = (ier, c', z') \<Longrightarrow>
   translate_coordinates K g (tx, ty, tz) (fx, fy, fz) =
     (if ier \<noteq> 0 then Some (Exception ''Something went wrong in translate'') else None,
      g\<lparr>self_p_coord_v := Some c', self_p_zcorn_v := Some z'\<rparr>)"
  by (simp add: translate_coordinates_def)

lemma translate_coordinates_null:
  "self_p_coord_v g = None \<or> self_p_zcorn_v g = None \<Longrightarrow>
   translate_coordinates K g (tx, ty, tz) (fx, fy, fz) = (Some NullHandle, g)"
  by (auto simp: translate_coordinates_def split: option.splits)

lemma grd3d_translate_invalid:
  "\<not> (flip_ok fx \<and> flip_ok fy \<and> flip_ok fz) \<Longrightarrow>
   grd3d_translate nc nr nl fx fy fz tx ty tz coord zcorn = (- 1, coord, zcorn)"
  by (simp add: grd3d_translate_def)

lemma grd3d_translate_valid:
  "flip_ok fx \<and> flip_ok fy \<and> flip_ok fz \<Longrightarrow>
   fst (grd3d_translate nc nr nl fx fy fz tx ty tz coord zcorn) = 0"
  by (simp add: grd3d_translate_def)

text \<open>
  Claim C6: when one of the three flips is neither 1 nor -1, \<open>translate_coordinates\<close>
  ends with an exception and the grid, its pillar coordinates and corner depths
  included, is exactly as it was; on a grid that holds its arrays the exception is the
  one the method raises for a status that is not 0. With three flips in \<open>{1, -1}\<close> on
  such a grid the call returns normally. The check of the flips is the native
  routine's, modelled from the specification.
\<close>

theorem translate_coordinates_flip_validated:
  "(\<not> (flip_ok fx \<and> flip_ok fy \<and> flip_ok fz) \<longrightarrow>
      fst (translate_coordinates grd3d_translate g t (fx, fy, fz)) \<noteq> None \<and>
      snd (translate_coordinates grd3d_translate g t (fx, fy, fz)) = g \<and>
      (self_p_coord_v g \<noteq> None \<and> self_p_zcorn_v g \<noteq> None \<longrightarrow>
         fst (translate_coordinates grd3d_translate g t (fx, fy, fz)) =
           Some (Exception ''Something went wrong in translate''))) \<and>
   (flip_ok fx \<and> flip_ok fy \<and> flip_ok fz \<and>
    self_p_coord_v g \<noteq> None \<and> self_p_zcorn_v g \<noteq> None \<longrightarrow>
      fst (translate_coordinates grd3d_translate g t (fx, fy, fz)) = None)"
proof -
  obtain tx ty tz where t: "t = (tx, ty, tz)"
    by (cases t) auto
  show ?thesis
  proof (cases "self_p_coord_v g = None \<or> self_p_zcorn_v g = None")
    case True
    from translate_coordinates_null [OF True, of grd3d_translate tx ty tz fx fy fz] True
    show ?thesis
      unfolding t by auto
  next
    case False
    then obtain coord zcorn where
      h: "self_p_coord_v g = Some coord" "self_p_zcorn_v g = Some zcorn"
      by auto
    obtain ier c' z' where
      r: "grd3d_translate (self_ncol g) (self_nrow g) (self_nlay g) fx fy fz tx ty tz coord zcorn
            = (ier, c', z')"
      by (rule prod_cases3)
    note res = translate_coordinates_result [where K = grd3d_translate, OF h r]
    show ?thesis
    proof (cases "flip_ok fx \<and> flip_ok fy \<and> flip_ok fz")
      case True
      from grd3d_translate_valid [OF True, of "self_ncol g" "self_nrow g" "self_nlay g" tx ty tz
          coord zcorn] r
      have "ier = 0" by simp
      with res True h show ?thesis
        unfolding t by simp
    next
      case False
      from grd3d_translate_invalid [OF False, of "self_ncol g" "self_nrow g" "self_nlay g" tx ty tz
          coord zcorn] r
      have "ier = - 1" "c' = coord" "z' = zcorn" by simp_all
      with res h have "translate_coordinates grd3d_translate g (tx, ty, tz) (fx, fy, fz) =
              (Some (Exception ''Something went wrong in translate''), g)"
        by simp
      with False h show ?thesis
        unfolding t by simp
    qed
  qed
qed

theorem translate_coordinates_flip_validated_witness:
  "translate_coordinates grd3d_translate grid_2x1x1 (10, 0, 0) (1, 1, 2) =
     (Some (Exception ''Something went wrong in translate''), grid_2x1x1) \<and>
   fst (translate_coordinates grd3d_translate grid_2x1x1 (10, 0, 0) (1, 1, - 1)) = None"
proof -
  note t1 = translate_coordinates_flip_validated [of 1 1 2 grid_2x1x1 "(10, 0, 0)"]
  note t2 = translate_coordinates_flip_validated [of 1 1 "- 1" grid_2x1x1 "(10, 0, 0)"]
  have c: "self_p_coord_v grid_2x1x1 \<noteq> None" "self_p_zcorn_v grid_2x1x1 \<noteq> None"
    by (simp_all add: grid_2x1x1_fields)
  have f: "\<not> (flip_ok 1 \<and> flip_ok 1 \<and> flip_ok 2)" "flip_ok 1 \<and> flip_ok 1 \<and> flip_ok (- 1)"
    by (simp_all add: flip_ok_def)
  from t1 f(1) c
  have a: "translate_coordinates grd3d_translate grid_2x1x1 (10, 0, 0) (1, 1, 2) =
     (Some (Exception ''Something went wrong in translate''), grid_2x1x1)"
    by (simp add: prod_eq_iff)
  from t2 f(2) c
  have b: "fst (translate_coordinates grd3d_translate grid_2x1x1 (10, 0, 0) (1, 1, - 1)) = None"
    by simp
  from a b show ?thesis by simp
qed

section \<open>Polygons\<close>












end
